theory Spec2Isabelle
  imports Complex_Main "HOL-Library.Char_ord" "HOL-Library.List_Lexorder"
begin

section \<open>The trading simulator of \<open>trading_simulator/app.py\<close>\<close>

text \<open>
  The simulator keeps its whole state in four SQLite tables and reads and writes them
  through small helper methods, each of which opens a connection, runs one statement,
  commits and closes. The embedding passes the database around as a value.

  Conventions of the embedding:
  \<^item> a Python \<open>float\<close> (and an SQLite \<open>REAL\<close>) is a \<open>real\<close>: arithmetic is exact, and
    rounding, overflow, infinities and NaN are outside the model;
  \<^item> a timestamp is stored as the text that \<open>datetime.isoformat()\<close> produces, and
    \<open>ORDER BY timestamp\<close> compares that text bytewise (the order of \<open>string\<close> here);
  \<^item> \<open>datetime.utcnow()\<close> is an input of the function that calls it;
  \<^item> an exception is a value \<open>Inl e\<close> of the result; \<open>print\<close> is not modelled.
\<close>

subsection \<open>Data\<close>

datatype py_error = ZeroDivisionError | IndexError

text \<open>A row of table \<open>prices\<close>: \<open>(timestamp, symbol, price)\<close>, primary key \<open>(timestamp, symbol)\<close>.\<close>

type_synonym price_row = "string \<times> string \<times> real"

definition row_timestamp :: "price_row \<Rightarrow> string" where
  "row_timestamp r = fst r"

definition row_symbol :: "price_row \<Rightarrow> string" where
  "row_symbol r = fst (snd r)"

definition row_price :: "price_row \<Rightarrow> real" where
  "row_price r = snd (snd r)"

definition row_key :: "price_row \<Rightarrow> string \<times> string" where
  "row_key r = (row_timestamp r, row_symbol r)"

text \<open>
  A naive \<open>datetime\<close>, as \<open>datetime.utcnow()\<close> returns it.
\<close>

record datetime =
  year :: nat
  month :: nat
  day :: nat
  hour :: nat
  minute :: nat
  second :: nat
  microsecond :: nat

text \<open>
  A row of table \<open>trades\<close>. The \<open>AUTOINCREMENT\<close> id is the position of the row in the
  list: rows are only ever appended.
\<close>

record trade =
  t_timestamp :: string
  t_symbol :: string
  t_action :: string
  t_price :: real
  t_quantity :: real
  t_balance :: real

text \<open>
  The database. Table \<open>prices\<close> is the list of its rows in insertion order, table
  \<open>portfolio\<close> (primary key \<open>symbol\<close>) a map, and table \<open>cash\<close>, whose only admissible
  row has \<open>id = 1\<close>, the balance of that row if it is there.
\<close>

record db =
  tbl_prices :: "price_row list"
  tbl_trades :: "trade list"
  tbl_portfolio :: "string \<rightharpoonup> real"
  tbl_cash :: "real option"

text \<open>The fields of \<open>TradingSimulator\<close> that the strategy and the executor read.\<close>

record simulator =
  symbols :: "string list"
  short_ma :: int
  long_ma :: int
  position_size_fraction :: real

datatype signal = BUY | SELL | HOLD

subsection \<open>Python and SQL primitives\<close>

text \<open>
  A slice bound of a sequence of length \<open>n\<close>: a negative bound counts from the end, and
  every bound is clamped into \<open>0..n\<close>.
\<close>

definition slice_bound :: "int \<Rightarrow> int \<Rightarrow> nat" where
  "slice_bound n i = (if i < 0 then nat (max (i + n) 0) else nat (min i n))"

text \<open>\<open>xs[start:stop]\<close>; \<open>stop = None\<close> is \<open>xs[start:]\<close>.\<close>

definition py_slice :: "'a list \<Rightarrow> int \<Rightarrow> int option \<Rightarrow> 'a list" where
  "py_slice xs start stop =
     (let n = int (length xs);
          lo = slice_bound n start;
          hi = (case stop of None \<Rightarrow> length xs | Some s \<Rightarrow> slice_bound n s)
      in take (hi - lo) (drop lo xs))"

text \<open>\<open>sum(xs)\<close> adds from the left, starting at 0.\<close>

definition py_sum :: "real list \<Rightarrow> real" where
  "py_sum xs = foldl (+) 0 xs"

text \<open>\<open>x / n\<close> for an \<open>int\<close> divisor.\<close>

definition py_div :: "real \<Rightarrow> int \<Rightarrow> py_error + real" where
  "py_div x n = (if n = 0 then Inl ZeroDivisionError else Inr (x / real_of_int n))"

text \<open>\<open>xs[-1]\<close>.\<close>

definition py_last :: "'a list \<Rightarrow> py_error + 'a" where
  "py_last xs = (case xs of [] \<Rightarrow> Inl IndexError | _ # _ \<Rightarrow> Inr (last xs))"

text \<open>
  \<open>datetime.isoformat()\<close>: \<open>YYYY-MM-DDTHH:MM:SS\<close>, followed by \<open>.ffffff\<close> when the
  microsecond is not 0. A field is written in decimal, padded with zeros to its width;
  the fields of a \<open>datetime\<close> never exceed their widths (the year is at most 9999).
\<close>

definition digit :: "nat \<Rightarrow> char" where
  "digit n = char_of (48 + n)"

fun zero_padded :: "nat \<Rightarrow> nat \<Rightarrow> string" where
  "zero_padded 0 n = []"
| "zero_padded (Suc w) n = zero_padded w (n div 10) @ [digit (n mod 10)]"

definition isoformat :: "datetime \<Rightarrow> string" where
  "isoformat t =
     zero_padded 4 (year t) @ ''-'' @ zero_padded 2 (month t) @ ''-'' @ zero_padded 2 (day t)
     @ ''T'' @ zero_padded 2 (hour t) @ '':'' @ zero_padded 2 (minute t) @ '':''
     @ zero_padded 2 (second t)
     @ (if microsecond t = 0 then [] else ''.'' @ zero_padded 6 (microsecond t))"

text \<open>
  \<open>ORDER BY timestamp DESC\<close> and \<open>LIMIT n\<close>. The rows of one symbol have different
  timestamps, by the primary key, so their order is determined. In SQLite a negative
  limit is no limit.
\<close>

definition order_by_timestamp_desc :: "price_row list \<Rightarrow> price_row list" where
  "order_by_timestamp_desc rows = rev (sort_key row_timestamp rows)"

definition sql_limit :: "int \<Rightarrow> 'a list \<Rightarrow> 'a list" where
  "sql_limit n rows = (if n < 0 then rows else take (nat n) rows)"

subsection \<open>The database helpers\<close>

definition empty_db :: db where
  "empty_db = \<lparr>tbl_prices = [], tbl_trades = [], tbl_portfolio = Map.empty, tbl_cash = None\<rparr>"

text \<open>\<open>_init_db\<close>: the tables are created if missing and the cash row is inserted if missing.\<close>

definition init_db :: "real \<Rightarrow> db \<Rightarrow> db" where
  "init_db starting_balance d =
     (case tbl_cash d of
        None \<Rightarrow> d\<lparr>tbl_cash := Some starting_balance\<rparr>
      | Some _ \<Rightarrow> d)"

text \<open>\<open>_store_price\<close>: \<open>INSERT OR REPLACE\<close> deletes the row with the same key, then inserts.\<close>

definition store_price :: "datetime \<Rightarrow> string \<Rightarrow> real \<Rightarrow> db \<Rightarrow> db" where
  "store_price timestamp symbol price d =
     d\<lparr>tbl_prices :=
         filter (\<lambda>r. row_key r \<noteq> (isoformat timestamp, symbol)) (tbl_prices d)
         @ [(isoformat timestamp, symbol, price)]\<rparr>"

text \<open>\<open>_get_recent_prices\<close>.\<close>

definition get_recent_prices :: "db \<Rightarrow> string \<Rightarrow> int \<Rightarrow> real list" where
  "get_recent_prices d symbol periods =
     (let rows = sql_limit periods
                   (order_by_timestamp_desc
                      (filter (\<lambda>r. row_symbol r = symbol) (tbl_prices d)))
      in map row_price (rev rows))"

definition get_cash_balance :: "db \<Rightarrow> real" where
  "get_cash_balance d = (case tbl_cash d of Some b \<Rightarrow> b | None \<Rightarrow> 0)"

text \<open>\<open>_update_cash_balance\<close>: an \<open>UPDATE\<close> changes the row if there is one.\<close>

definition update_cash_balance :: "real \<Rightarrow> db \<Rightarrow> db" where
  "update_cash_balance new_balance d =
     (case tbl_cash d of
        None \<Rightarrow> d
      | Some _ \<Rightarrow> d\<lparr>tbl_cash := Some new_balance\<rparr>)"

definition get_portfolio_quantity :: "db \<Rightarrow> string \<Rightarrow> real" where
  "get_portfolio_quantity d symbol =
     (case tbl_portfolio d symbol of Some q \<Rightarrow> q | None \<Rightarrow> 0)"

definition update_portfolio_quantity :: "string \<Rightarrow> real \<Rightarrow> db \<Rightarrow> db" where
  "update_portfolio_quantity symbol quantity d =
     (if quantity = 0
      then d\<lparr>tbl_portfolio := (tbl_portfolio d)(symbol := None)\<rparr>
      else d\<lparr>tbl_portfolio := (tbl_portfolio d)(symbol \<mapsto> quantity)\<rparr>)"

definition log_trade ::
  "datetime \<Rightarrow> string \<Rightarrow> string \<Rightarrow> real \<Rightarrow> real \<Rightarrow> real \<Rightarrow> db \<Rightarrow> db" where
  "log_trade timestamp symbol action price quantity balance d =
     d\<lparr>tbl_trades := tbl_trades d @
         [\<lparr>t_timestamp = isoformat timestamp, t_symbol = symbol, t_action = action,
           t_price = price, t_quantity = quantity, t_balance = balance\<rparr>]\<rparr>"

subsection \<open>Trade execution\<close>

text \<open>
  \<open>_execute_trade\<close>; \<open>now\<close> is the value of \<open>datetime.utcnow()\<close>. The three writes of a
  trade are applied in the order of the source: cash, portfolio, ledger.
\<close>

definition execute_trade ::
  "simulator \<Rightarrow> datetime \<Rightarrow> db \<Rightarrow> string \<Rightarrow> string \<Rightarrow> real \<Rightarrow> py_error + db" where
  "execute_trade self now d symbol action price =
     (let cash = get_cash_balance d;
          quantity_owned = get_portfolio_quantity d symbol
      in if action = ''BUY'' then
           (let spend = cash * position_size_fraction self
            in if spend < 0.0001 then Inr d
               else if price = 0 then Inl ZeroDivisionError
               else
                 (let qty = spend / price;
                      new_cash = cash - spend;
                      new_qty = quantity_owned + qty
                  in Inr (log_trade now symbol action price qty new_cash
                           (update_portfolio_quantity symbol new_qty
                             (update_cash_balance new_cash d)))))
         else if action = ''SELL'' \<and> quantity_owned > 0 then
           (let qty = quantity_owned;
                proceeds = qty * price;
                new_cash = cash + proceeds
            in Inr (log_trade now symbol action price (- qty) new_cash
                     (update_portfolio_quantity symbol 0
                       (update_cash_balance new_cash d))))
         else Inr d)"

text \<open>
  The same method, observed from outside: every helper commits on its own connection,
  so a trade goes through a sequence of committed database states. The function
  returns that sequence, oldest first; it is empty when nothing is written.
\<close>

definition execute_trade_commits ::
  "simulator \<Rightarrow> datetime \<Rightarrow> db \<Rightarrow> string \<Rightarrow> string \<Rightarrow> real \<Rightarrow> py_error + db list" where
  "execute_trade_commits self now d symbol action price =
     (let cash = get_cash_balance d;
          quantity_owned = get_portfolio_quantity d symbol
      in if action = ''BUY'' then
           (let spend = cash * position_size_fraction self
            in if spend < 0.0001 then Inr []
               else if price = 0 then Inl ZeroDivisionError
               else
                 (let qty = spend / price;
                      new_cash = cash - spend;
                      new_qty = quantity_owned + qty;
                      d1 = update_cash_balance new_cash d;
                      d2 = update_portfolio_quantity symbol new_qty d1;
                      d3 = log_trade now symbol action price qty new_cash d2
                  in Inr [d1, d2, d3]))
         else if action = ''SELL'' \<and> quantity_owned > 0 then
           (let qty = quantity_owned;
                proceeds = qty * price;
                new_cash = cash + proceeds;
                d1 = update_cash_balance new_cash d;
                d2 = update_portfolio_quantity symbol 0 d1;
                d3 = log_trade now symbol action price (- qty) new_cash d2
            in Inr [d1, d2, d3])
         else Inr [])"



subsection \<open>Strategy evaluation\<close>

text \<open>
  The decision of \<open>_evaluate_strategy\<close> on the prices it has read: which of its
  branches is taken. The four averages are computed in the order of the source, so
  the first division by a zero window raises.
\<close>

definition crossover_signal :: "simulator \<Rightarrow> real list \<Rightarrow> py_error + signal" where
  "crossover_signal self prices =
     (if int (length prices) < long_ma self + 1 then Inr HOLD
      else
        (case py_div (py_sum (py_slice prices (- (short_ma self + 1)) (Some (- 1))))
                (short_ma self) of
           Inl e \<Rightarrow> Inl e
         | Inr short_ma_old \<Rightarrow>
        (case py_div (py_sum (py_slice prices (- (long_ma self + 1)) (Some (- 1))))
                (long_ma self) of
           Inl e \<Rightarrow> Inl e
         | Inr long_ma_old \<Rightarrow>
        (case py_div (py_sum (py_slice prices (- short_ma self) None)) (short_ma self) of
           Inl e \<Rightarrow> Inl e
         | Inr short_ma_new \<Rightarrow>
        (case py_div (py_sum (py_slice prices (- long_ma self) None)) (long_ma self) of
           Inl e \<Rightarrow> Inl e
         | Inr long_ma_new \<Rightarrow>
             (if short_ma_old \<le> long_ma_old \<and> short_ma_new > long_ma_new then Inr BUY
              else if short_ma_old \<ge> long_ma_old \<and> short_ma_new < long_ma_new then Inr SELL
              else Inr HOLD))))))"

text \<open>\<open>_evaluate_strategy\<close>.\<close>

definition evaluate_strategy :: "simulator \<Rightarrow> datetime \<Rightarrow> db \<Rightarrow> string \<Rightarrow> py_error + db" where
  "evaluate_strategy self now d symbol =
     (let prices = get_recent_prices d symbol (long_ma self + 1)
      in case crossover_signal self prices of
           Inl e \<Rightarrow> Inl e
         | Inr HOLD \<Rightarrow> Inr d
         | Inr BUY \<Rightarrow>
             (case py_last prices of
                Inl e \<Rightarrow> Inl e
              | Inr current_price \<Rightarrow> execute_trade self now d symbol ''BUY'' current_price)
         | Inr SELL \<Rightarrow>
             (case py_last prices of
                Inl e \<Rightarrow> Inl e
              | Inr current_price \<Rightarrow> execute_trade self now d symbol ''SELL'' current_price))"

subsection \<open>Notions of the specification and example data\<close>






text \<open>What a reader of the account sees for one symbol: the cash balance and the holding.\<close>

definition account_view :: "string \<Rightarrow> db \<Rightarrow> real \<times> real" where
  "account_view symbol d = (get_cash_balance d, get_portfolio_quantity d symbol)"

text \<open>
  A trade is atomic for such a reader if every committed state shows either the account
  as it was before the trade or the account as it is after the trade.
\<close>

definition trade_atomic ::
  "simulator \<Rightarrow> datetime \<Rightarrow> db \<Rightarrow> string \<Rightarrow> string \<Rightarrow> real \<Rightarrow> bool" where
  "trade_atomic self now d symbol action price =
     (case execute_trade_commits self now d symbol action price of
        Inl e \<Rightarrow> True
      | Inr cs \<Rightarrow>
          list_all (\<lambda>c. account_view symbol c = account_view symbol d
                        \<or> account_view symbol c = account_view symbol (last (d # cs))) cs)"



text \<open>
  The datetimes Python admits lie within these bounds, and it compares two of them
  field by field, from the year down to the microsecond.
\<close>

definition valid_datetime :: "datetime \<Rightarrow> bool" where
  "valid_datetime t \<longleftrightarrow>
     1 \<le> year t \<and> year t \<le> 9999 \<and> 1 \<le> month t \<and> month t \<le> 12
     \<and> 1 \<le> day t \<and> day t \<le> 31 \<and> hour t < 24 \<and> minute t < 60 \<and> second t < 60
     \<and> microsecond t < 1000000"

definition earlier :: "datetime \<Rightarrow> datetime \<Rightarrow> bool" where
  "earlier a b \<longleftrightarrow>
     [year a, month a, day a, hour a, minute a, second a, microsecond a]
       < [year b, month b, day b, hour b, minute b, second b, microsecond b]"

text \<open>The first of January 2024, at a given minute after midnight.\<close>

definition example_time :: "nat \<Rightarrow> datetime" where
  "example_time m = \<lparr>year = 2024, month = 1, day = 1, hour = 0, minute = m, second = 0,
       microsecond = 0\<rparr>"

text \<open>The configuration of \<open>main\<close> and a freshly initialised database.\<close>

definition example_sim :: simulator where
  "example_sim = \<lparr>symbols = [''BTCUSDT'', ''ETHUSDT''], short_ma = 5, long_ma = 20,
                   position_size_fraction = 0.05\<rparr>"

definition example_db :: db where
  "example_db = init_db 10000 empty_db"




text \<open>A price history recorded out of order, for two symbols.\<close>

definition example_history :: db where
  "example_history =
     store_price (example_time 15) ''BTCUSDT'' 30
       (store_price (example_time 5) ''BTCUSDT'' 10
         (store_price (example_time 10) ''ETHUSDT'' 99
           (store_price (example_time 10) ''BTCUSDT'' 20 empty_db)))"


section \<open>Properties\<close>

subsection \<open>Basic facts\<close>

lemma row_simps [simp]:
  "row_timestamp (t, s, p) = t" "row_symbol (t, s, p) = s" "row_price (t, s, p) = p"
  "row_key (t, s, p) = (t, s)"
  by (simp_all add: row_timestamp_def row_symbol_def row_price_def row_key_def)

text \<open>
  The text of \<open>isoformat\<close> orders datetimes as Python does: a field of fixed width
  compares as its number, and the text without a fraction is a prefix of every text
  with one.
\<close>

lemma digit_less: "a < 10 \<Longrightarrow> b < 10 \<Longrightarrow> digit a < digit b \<longleftrightarrow> a < b"
  by (simp add: digit_def less_char_def)

lemma digit_eq: "a < 10 \<Longrightarrow> b < 10 \<Longrightarrow> digit a = digit b \<longleftrightarrow> a = b"
proof -
  assume "a < 10" "b < 10"
  then have "of_char (digit a) = 48 + a" "of_char (digit b) = 48 + b"
    by (simp_all add: digit_def)
  then show ?thesis by (metis add_left_cancel)
qed

lemma base10_less:
  "r < 10 \<Longrightarrow> s < 10 \<Longrightarrow> 10 * a + r < 10 * b + (s::nat) \<longleftrightarrow> a < b \<or> a = b \<and> r < s"
  by linarith

lemma div_mod_less:
  "(n::nat) < m \<longleftrightarrow> n div 10 < m div 10 \<or> n div 10 = m div 10 \<and> n mod 10 < m mod 10"
  using base10_less [of "n mod 10" "m mod 10" "n div 10" "m div 10"] by simp

lemma div_mod_eq: "(n::nat) = m \<longleftrightarrow> n div 10 = m div 10 \<and> n mod 10 = m mod 10"
  by (metis div_mult_mod_eq)

lemma zero_padded_less:
  "n < 10 ^ w \<Longrightarrow> m < 10 ^ w \<Longrightarrow>
   zero_padded w n @ xs < zero_padded w m @ ys \<longleftrightarrow> n < m \<or> n = m \<and> xs < ys"
proof (induction w arbitrary: n m xs ys)
  case 0
  then show ?case by simp
next
  case (Suc w)
  have d: "n div 10 < 10 ^ w" "m div 10 < 10 ^ w"
    using Suc.prems by (simp_all add: less_mult_imp_div_less mult.commute)
  have "zero_padded (Suc w) n @ xs < zero_padded (Suc w) m @ ys \<longleftrightarrow>
        zero_padded w (n div 10) @ (digit (n mod 10) # xs)
          < zero_padded w (m div 10) @ (digit (m mod 10) # ys)"
    by simp
  also have "\<dots> \<longleftrightarrow> n div 10 < m div 10
      \<or> n div 10 = m div 10 \<and> (n mod 10 < m mod 10 \<or> n mod 10 = m mod 10 \<and> xs < ys)"
    by (simp add: Suc.IH [OF d] digit_less digit_eq)
  also have "\<dots> \<longleftrightarrow> n < m \<or> n = m \<and> xs < ys"
    using div_mod_less [of n m] div_mod_eq [of n m] by blast
  finally show ?case .
qed

lemma isoformat_less_iff:
  assumes "valid_datetime a" and "valid_datetime b"
  shows "isoformat a < isoformat b \<longleftrightarrow> earlier a b"
proof -
  have y: "year a < 10 ^ 4" "year b < 10 ^ 4"
    and mo: "month a < 10 ^ 2" "month b < 10 ^ 2"
    and d: "day a < 10 ^ 2" "day b < 10 ^ 2"
    and h: "hour a < 10 ^ 2" "hour b < 10 ^ 2"
    and mi: "minute a < 10 ^ 2" "minute b < 10 ^ 2"
    and s: "second a < 10 ^ 2" "second b < 10 ^ 2"
    and us: "microsecond a < 10 ^ 6" "microsecond b < 10 ^ 6"
    using assms by (simp_all add: valid_datetime_def)
  have tail: "(if microsecond a = 0 then [] else CHR ''.'' # zero_padded 6 (microsecond a))
            < (if microsecond b = 0 then [] else CHR ''.'' # zero_padded 6 (microsecond b))
         \<longleftrightarrow> microsecond a < microsecond b"
    using zero_padded_less [OF us, of "[]" "[]"] by auto
  have "isoformat a < isoformat b \<longleftrightarrow>
      year a < year b \<or> year a = year b \<and>
      (month a < month b \<or> month a = month b \<and>
      (day a < day b \<or> day a = day b \<and>
      (hour a < hour b \<or> hour a = hour b \<and>
      (minute a < minute b \<or> minute a = minute b \<and>
      (second a < second b \<or> second a = second b \<and>
       microsecond a < microsecond b)))))"
    unfolding isoformat_def
    by (simp only: zero_padded_less [OF y] zero_padded_less [OF mo] zero_padded_less [OF d]
        zero_padded_less [OF h] zero_padded_less [OF mi] zero_padded_less [OF s]
        tail append_Cons append_Nil Cons_less_Cons less_irrefl simp_thms)
  then show ?thesis by (simp add: earlier_def)
qed

lemma isoformat_inj:
  assumes "valid_datetime a" and "valid_datetime b" and "isoformat a = isoformat b"
  shows "a = b"
proof -
  have "\<not> earlier a b" "\<not> earlier b a"
    using isoformat_less_iff [OF assms(1,2)] isoformat_less_iff [OF assms(2,1)] assms(3)
    by simp_all
  then have "[year a, month a, day a, hour a, minute a, second a, microsecond a]
           = [year b, month b, day b, hour b, minute b, second b, microsecond b]"
    unfolding earlier_def by (rule linorder_class.antisym_conv3 [THEN iffD1, rotated])
  then show ?thesis by simp
qed

lemma zero_padded_numeral:
  "zero_padded (numeral k) n = zero_padded (pred_numeral k) (n div 10) @ [digit (n mod 10)]"
  by (simp only: numeral_eq_Suc [of k] zero_padded.simps)

lemma digit_chars:
  "digit 0 = CHR ''0''" "digit 1 = CHR ''1''" "digit 2 = CHR ''2''" "digit 3 = CHR ''3''"
  "digit 4 = CHR ''4''" "digit 5 = CHR ''5''" "digit 6 = CHR ''6''" "digit 7 = CHR ''7''"
  "digit 8 = CHR ''8''" "digit 9 = CHR ''9''" "digit (Suc 0) = CHR ''1''"
  by (simp_all add: digit_def char_of_def bit_0)

lemma isoformat_example_time:
  "isoformat (example_time 0) = ''2024-01-01T00:00:00''"
  "isoformat (example_time 5) = ''2024-01-01T00:05:00''"
  "isoformat (example_time 10) = ''2024-01-01T00:10:00''"
  "isoformat (example_time 15) = ''2024-01-01T00:15:00''"
  "isoformat (example_time 20) = ''2024-01-01T00:20:00''"
  by (simp_all add: isoformat_def example_time_def zero_padded_numeral digit_chars)

lemma example_db_simps:
  "tbl_cash example_db = Some 10000" "tbl_portfolio example_db = Map.empty"
  "tbl_trades example_db = []" "tbl_prices example_db = []"
  by (simp_all add: example_db_def init_db_def empty_db_def)


text \<open>The constructor leaves a cash row behind, and no helper removes it.\<close>

lemma init_db_cash_row: "tbl_cash (init_db b d) \<noteq> None"
  by (simp add: init_db_def split: option.splits)



lemma execute_trade_cash_row:
  "tbl_cash d \<noteq> None \<Longrightarrow> execute_trade self now d symbol action price = Inr d' \<Longrightarrow>
   tbl_cash d' \<noteq> None"
  by (auto simp add: execute_trade_def Let_def update_cash_balance_def
      update_portfolio_quantity_def log_trade_def split: if_splits)

text \<open>The state a trade returns is the last state it commits.\<close>

lemma execute_trade_last_commit:
  "execute_trade self now d symbol action price =
     (case execute_trade_commits self now d symbol action price of
        Inl e \<Rightarrow> Inl e
      | Inr cs \<Rightarrow> Inr (last (d # cs)))"
  by (simp add: execute_trade_def execute_trade_commits_def Let_def)

lemma example_history_rows:
  "tbl_prices example_history =
     [(''2024-01-01T00:10:00'', ''BTCUSDT'', 20), (''2024-01-01T00:10:00'', ''ETHUSDT'', 99),
      (''2024-01-01T00:05:00'', ''BTCUSDT'', 10), (''2024-01-01T00:15:00'', ''BTCUSDT'', 30)]"
  by (simp add: example_history_def store_price_def empty_db_def isoformat_example_time)

lemma example_history_recent:
  "get_recent_prices example_history ''BTCUSDT'' 2 = [20, 30]"
  "get_recent_prices example_history ''BTCUSDT'' 21 = [10, 20, 30]"
  "get_recent_prices example_history ''ETHUSDT'' 2 = [99]"
  by (simp_all add: get_recent_prices_def sql_limit_def order_by_timestamp_desc_def
      example_history_rows Let_def)

lemma example_buy_commits:
  "execute_trade_commits example_sim (example_time 0) example_db ''BTCUSDT'' ''BUY'' 100
     = Inr [example_db\<lparr>tbl_cash := Some 9500\<rparr>,
            example_db\<lparr>tbl_cash := Some 9500, tbl_portfolio := [''BTCUSDT'' \<mapsto> 5]\<rparr>,
            example_db\<lparr>tbl_cash := Some 9500, tbl_portfolio := [''BTCUSDT'' \<mapsto> 5],
               tbl_trades := [\<lparr>t_timestamp = ''2024-01-01T00:00:00'', t_symbol = ''BTCUSDT'',
                  t_action = ''BUY'', t_price = 100, t_quantity = 5, t_balance = 9500\<rparr>]\<rparr>]"
  by (simp add: execute_trade_commits_def Let_def get_cash_balance_def
      get_portfolio_quantity_def example_db_simps example_sim_def
      update_cash_balance_def update_portfolio_quantity_def log_trade_def
      isoformat_example_time)

subsection \<open>Trade execution: the branches that write nothing\<close>

text \<open>
  Claim C10. For every symbol, price and action string other than \<open>BUY\<close> and \<open>SELL\<close>,
  trade execution returns normally and leaves the database as it is: the cash balance,
  every holding and the ledger are unchanged, and no trade record is appended.
\<close>

theorem execute_trade_other_action:
  "action \<noteq> ''BUY'' \<Longrightarrow> action \<noteq> ''SELL'' \<Longrightarrow>
   execute_trade self now d symbol action price = Inr d"
  by (simp add: execute_trade_def Let_def)

theorem execute_trade_other_action_witness:
  "''HOLD'' \<noteq> ''BUY'' \<and> ''HOLD'' \<noteq> ''SELL''
   \<and> execute_trade example_sim (example_time 0) example_db ''BTCUSDT'' ''HOLD'' 100
       = Inr example_db"
  using execute_trade_other_action
    [of "''HOLD''" example_sim "example_time 0" example_db "''BTCUSDT''" 100]
  by simp



subsection \<open>Trade execution: SELL\<close>



subsection \<open>Strategy evaluation with a short history\<close>

text \<open>
  Claim C4. On a price sequence of fewer than \<open>long_ma + 1\<close> elements the decision is
  HOLD, and when the stored history read by \<open>_evaluate_strategy\<close> is that short, the
  evaluation returns the database unchanged and raises nothing.
\<close>

theorem short_history_holds:
  "int (length prices) < long_ma self + 1 \<Longrightarrow>
   crossover_signal self prices = Inr HOLD
   \<and> (get_recent_prices d symbol (long_ma self + 1) = prices
        \<longrightarrow> evaluate_strategy self now d symbol = Inr d)"
  by (simp add: crossover_signal_def evaluate_strategy_def Let_def)

theorem short_history_holds_witness:
  "int (length (get_recent_prices example_history ''BTCUSDT'' (long_ma example_sim + 1)))
     < long_ma example_sim + 1
   \<and> crossover_signal example_sim
        (get_recent_prices example_history ''BTCUSDT'' (long_ma example_sim + 1)) = Inr HOLD
   \<and> evaluate_strategy example_sim (example_time 15) example_history ''BTCUSDT''
        = Inr example_history"
proof -
  have l: "long_ma example_sim + 1 = 21" by (simp add: example_sim_def)
  have h: "int (length (get_recent_prices example_history ''BTCUSDT'' (long_ma example_sim + 1)))
     < long_ma example_sim + 1"
    unfolding l by (simp add: example_history_recent)
  show ?thesis
    using h short_history_holds
      [OF h, of example_history "''BTCUSDT''" "example_time 15"]
    by simp
qed

subsection \<open>Trade execution: BUY\<close>




subsection \<open>Trade execution: the order of the commits\<close>

text \<open>
  Claim C5, as the code has it. A trade that writes commits three states one after
  another: the first has the new cash balance with the holdings and the ledger still as
  before, the second has the new cash balance and the new holding, and the third adds
  the trade record and is the state the execution returns.
\<close>

theorem trade_commits_in_order:
  assumes "tbl_cash d = Some C"
    and "execute_trade_commits self now d symbol action price = Inr cs" and "cs \<noteq> []"
  shows "\<exists>d1 d2 d3. cs = [d1, d2, d3]
         \<and> execute_trade self now d symbol action price = Inr d3
         \<and> tbl_cash d1 = tbl_cash d3 \<and> tbl_cash d1 \<noteq> None
         \<and> tbl_portfolio d1 = tbl_portfolio d \<and> tbl_trades d1 = tbl_trades d
         \<and> tbl_cash d2 = tbl_cash d3 \<and> tbl_portfolio d2 = tbl_portfolio d3
         \<and> tbl_trades d2 = tbl_trades d
         \<and> length (tbl_trades d3) = Suc (length (tbl_trades d))"
  using assms
  by (auto simp add: execute_trade_def execute_trade_commits_def Let_def
      update_cash_balance_def update_portfolio_quantity_def log_trade_def
      split: if_splits)

theorem trade_commits_in_order_witness:
  "tbl_cash example_db = Some 10000
   \<and> execute_trade_commits example_sim (example_time 0) example_db ''BTCUSDT'' ''BUY'' 100
     = Inr [example_db\<lparr>tbl_cash := Some 9500\<rparr>,
            example_db\<lparr>tbl_cash := Some 9500, tbl_portfolio := [''BTCUSDT'' \<mapsto> 5]\<rparr>,
            example_db\<lparr>tbl_cash := Some 9500, tbl_portfolio := [''BTCUSDT'' \<mapsto> 5],
               tbl_trades := [\<lparr>t_timestamp = ''2024-01-01T00:00:00'', t_symbol = ''BTCUSDT'',
                  t_action = ''BUY'', t_price = 100, t_quantity = 5, t_balance = 9500\<rparr>]\<rparr>]
   \<and> execute_trade example_sim (example_time 0) example_db ''BTCUSDT'' ''BUY'' 100
     = Inr (example_db\<lparr>tbl_cash := Some 9500, tbl_portfolio := [''BTCUSDT'' \<mapsto> 5],
               tbl_trades := [\<lparr>t_timestamp = ''2024-01-01T00:00:00'', t_symbol = ''BTCUSDT'',
                  t_action = ''BUY'', t_price = 100, t_quantity = 5, t_balance = 9500\<rparr>]\<rparr>)"
proof -
  have c: "tbl_cash example_db = Some 10000" by (simp add: example_db_simps)
  from trade_commits_in_order [OF c example_buy_commits]
  have "execute_trade example_sim (example_time 0) example_db ''BTCUSDT'' ''BUY'' 100
     = Inr (example_db\<lparr>tbl_cash := Some 9500, tbl_portfolio := [''BTCUSDT'' \<mapsto> 5],
               tbl_trades := [\<lparr>t_timestamp = ''2024-01-01T00:00:00'', t_symbol = ''BTCUSDT'',
                  t_action = ''BUY'', t_price = 100, t_quantity = 5, t_balance = 9500\<rparr>]\<rparr>)"
    by auto
  with c example_buy_commits show ?thesis by simp
qed

text \<open>
  The first state a BUY commits shows the cash debited (9500 instead of 10000) while
  the holding is still 0: a reader between the commits sees neither the account before
  the trade nor the account after it.
\<close>

theorem buy_commits_not_atomic:
  "execute_trade_commits example_sim (example_time 0) example_db ''BTCUSDT'' ''BUY'' 100
     = Inr [example_db\<lparr>tbl_cash := Some 9500\<rparr>,
            example_db\<lparr>tbl_cash := Some 9500, tbl_portfolio := [''BTCUSDT'' \<mapsto> 5]\<rparr>,
            example_db\<lparr>tbl_cash := Some 9500, tbl_portfolio := [''BTCUSDT'' \<mapsto> 5],
               tbl_trades := [\<lparr>t_timestamp = ''2024-01-01T00:00:00'', t_symbol = ''BTCUSDT'',
                  t_action = ''BUY'', t_price = 100, t_quantity = 5, t_balance = 9500\<rparr>]\<rparr>]
   \<and> account_view ''BTCUSDT'' example_db = (10000, 0)
   \<and> account_view ''BTCUSDT'' (example_db\<lparr>tbl_cash := Some 9500\<rparr>) = (9500, 0)
   \<and> \<not> trade_atomic example_sim (example_time 0) example_db ''BTCUSDT'' ''BUY'' 100"
proof -
  have v0: "account_view ''BTCUSDT'' example_db = (10000, 0)"
    by (simp add: account_view_def get_cash_balance_def get_portfolio_quantity_def example_db_simps)
  have v1: "account_view ''BTCUSDT'' (example_db\<lparr>tbl_cash := Some 9500\<rparr>) = (9500, 0)"
    by (simp add: account_view_def get_cash_balance_def get_portfolio_quantity_def example_db_simps)
  have "\<not> trade_atomic example_sim (example_time 0) example_db ''BTCUSDT'' ''BUY'' 100"
    unfolding trade_atomic_def example_buy_commits
    by (simp add: account_view_def get_cash_balance_def get_portfolio_quantity_def
        example_db_simps)
  with example_buy_commits v0 v1 show ?thesis by simp
qed

subsection \<open>The account invariant\<close>









subsection \<open>The crossover decision\<close>








text \<open>
  Without a short window the first average cannot be computed: the division raises.
\<close>

lemma crossover_signal_zero_window:
  "short_ma self = 0 \<Longrightarrow> long_ma self + 1 \<le> int (length prices) \<Longrightarrow>
   crossover_signal self prices = Inl ZeroDivisionError"
  by (simp add: crossover_signal_def py_div_def)



subsection \<open>The price history\<close>




text \<open>The primary key of table \<open>prices\<close> holds initially and is kept by \<open>_store_price\<close>.\<close>

lemma empty_db_keys_distinct: "distinct (map row_key (tbl_prices empty_db))"
  by (simp add: empty_db_def)

lemma store_price_keys_distinct:
  "distinct (map row_key (tbl_prices d)) \<Longrightarrow>
   distinct (map row_key (tbl_prices (store_price t s p d)))"
  by (auto simp add: store_price_def distinct_map_filter)






end
